theory Spec2Isabelle
  imports Complex_Main
begin

section \<open>Python values and errors\<close>

text \<open>
  The exceptions that the constructors and the forward passes of \<^verbatim>\<open>model/gin.py\<close> can
  raise, either in the file itself (\<^verbatim>\<open>ValueError\<close>, \<^verbatim>\<open>NotImplementedError\<close>), by indexing a
  module list (\<^verbatim>\<open>IndexError\<close>), by reading an attribute that was never set
  (\<^verbatim>\<open>AttributeError\<close>), or inside the tensor and graph libraries (\<^verbatim>\<open>KeyError\<close> of the
  graph convolution's constructor, \<^verbatim>\<open>RuntimeError\<close> for a shape mismatch, \<^verbatim>\<open>DGLError\<close> for a
  feature tensor that does not fit the graph).
\<close>

datatype error =
  ValueError | NotImplementedError | KeyError | IndexError | AttributeError
  | RuntimeError | DGLError

text \<open>Sequencing of computations that may raise: the first exception ends the computation.\<close>

fun bind_err :: "error + 'a \<Rightarrow> ('a \<Rightarrow> error + 'b) \<Rightarrow> error + 'b" where
  "bind_err (Inl e) f = Inl e"
| "bind_err (Inr x) f = f x"

text \<open>\<^verbatim>\<open>range(n)\<close> for a Python integer \<open>n\<close>: empty when \<open>n \<le> 0\<close>.\<close>

definition py_range :: "int \<Rightarrow> nat list" where
  "py_range n = [0..<nat n]"

text \<open>\<^verbatim>\<open>xs[i]\<close> for an index produced by \<^verbatim>\<open>range\<close> or \<^verbatim>\<open>enumerate\<close>, and \<^verbatim>\<open>xs[-1]\<close>.\<close>

definition getitem :: "'a list \<Rightarrow> nat \<Rightarrow> error + 'a" where
  "getitem xs i = (if i < length xs then Inr (xs ! i) else Inl IndexError)"

definition getitem_last :: "'a list \<Rightarrow> error + 'a" where
  "getitem_last xs = (if xs = [] then Inl IndexError else Inr (last xs))"

text \<open>
  \<^verbatim>\<open>score_over_layer\<close> starts as the Python integer \<open>0\<close> and becomes a tensor at the first
  \<^verbatim>\<open>+=\<close>; the value returned by \<^verbatim>\<open>GIN.forward\<close> is of this type.
\<close>

datatype 't pyval = PyInt int | Tensor 't

section \<open>Library layers\<close>

text \<open>
  Layers of the tensor library are records of their hyper-parameters. Every layer that
  owns parameter tensors carries a handle to them: constructing a layer allocates the next
  free handle, so that two layers of the same dimensions are still two layers with their
  own parameters. The allocation counter is threaded through the constructors.
  Feature dimensions are natural numbers.
\<close>

record Linear =
  in_features :: nat
  out_features :: nat
  linear_params :: nat

record BatchNorm1d =
  num_features :: nat
  bn_params :: nat

record Dropout =
  dropout_p :: real

datatype pooling = SumPooling | AvgPooling | MaxPooling

definition nn_Linear :: "nat \<Rightarrow> nat \<Rightarrow> nat \<Rightarrow> Linear \<times> nat" where
  "nn_Linear input_dim output_dim s =
     (\<lparr>in_features = input_dim, out_features = output_dim, linear_params = s\<rparr>, Suc s)"

definition nn_BatchNorm1d :: "nat \<Rightarrow> nat \<Rightarrow> BatchNorm1d \<times> nat" where
  "nn_BatchNorm1d n s = (\<lparr>num_features = n, bn_params = s\<rparr>, Suc s)"

text \<open>\<^verbatim>\<open>nn.Dropout(p)\<close> raises \<^verbatim>\<open>ValueError\<close> unless \<open>0 \<le> p \<le> 1\<close>; it has no parameters.\<close>

definition nn_Dropout :: "real \<Rightarrow> error + Dropout" where
  "nn_Dropout p = (if p < 0 \<or> 1 < p then Inl ValueError else Inr \<lparr>dropout_p = p\<rparr>)"

section \<open>MLP\<close>

text \<open>
  The attributes set by \<^verbatim>\<open>MLP.__init__\<close>. \<^verbatim>\<open>linear\<close> exists only in the one-layer case
  (\<open>None\<close> otherwise); \<^verbatim>\<open>linears\<close> and \<^verbatim>\<open>batch_norms\<close> exist only in the multi-layer case
  and are empty otherwise, where \<^verbatim>\<open>forward\<close> never reads them.
\<close>

record MLP =
  linear_or_not :: bool
  num_layers :: int
  output_dim :: nat
  linear :: "Linear option"
  linears :: "Linear list"
  batch_norms :: "BatchNorm1d list"

text \<open>The two appending loops of the constructor, over the values of \<^verbatim>\<open>range\<close>.\<close>

fun append_linears ::
  "nat list \<Rightarrow> nat \<Rightarrow> nat \<Rightarrow> Linear list \<Rightarrow> nat \<Rightarrow> Linear list \<times> nat" where
  "append_linears [] d_in d_out acc s = (acc, s)"
| "append_linears (layer # rest) d_in d_out acc s =
     (case nn_Linear d_in d_out s of (l, s') \<Rightarrow> append_linears rest d_in d_out (acc @ [l]) s')"

fun append_batch_norms ::
  "nat list \<Rightarrow> nat \<Rightarrow> BatchNorm1d list \<Rightarrow> nat \<Rightarrow> BatchNorm1d list \<times> nat" where
  "append_batch_norms [] d acc s = (acc, s)"
| "append_batch_norms (layer # rest) d acc s =
     (case nn_BatchNorm1d d s of (b, s') \<Rightarrow> append_batch_norms rest d (acc @ [b]) s')"

definition MLP_init :: "int \<Rightarrow> nat \<Rightarrow> nat \<Rightarrow> nat \<Rightarrow> nat \<Rightarrow> error + (MLP \<times> nat)" where
  "MLP_init n input_dim hidden_dim out_dim s =
     (if n < 1 then Inl ValueError
      else if n = 1 then
        (case nn_Linear input_dim out_dim s of (l, s1) \<Rightarrow>
           Inr (\<lparr>linear_or_not = True, num_layers = n, output_dim = out_dim,
                 linear = Some l, linears = [], batch_norms = []\<rparr>, s1))
      else
        (case nn_Linear input_dim hidden_dim s of (l0, s1) \<Rightarrow>
         case append_linears (py_range (n - 2)) hidden_dim hidden_dim [l0] s1 of (ls, s2) \<Rightarrow>
         case nn_Linear hidden_dim out_dim s2 of (l_last, s3) \<Rightarrow>
         case append_batch_norms (py_range (n - 1)) hidden_dim [] s3 of (bs, s4) \<Rightarrow>
           Inr (\<lparr>linear_or_not = False, num_layers = n, output_dim = out_dim,
                 linear = None, linears = ls @ [l_last], batch_norms = bs\<rparr>, s4)))"

section \<open>The tensor and graph backend\<close>

text \<open>
  The numerical operators come from the tensor library and the graph library; the model
  file only composes them. They are the fields of a backend, over any type \<open>'t\<close> of tensors
  and \<open>'g\<close> of batched graphs: applying a linear layer, a batch normalisation, ReLU, the
  neighbourhood aggregation of a graph convolution (\<open>(1 + eps) * h\<close> plus the reduction of
  the neighbours' features, before the node function is applied), a graph pooling, dropout,
  and the two additions used by \<^verbatim>\<open>score_over_layer +=\<close> (integer plus tensor, tensor plus
  tensor). Operators that can raise return a sum.
\<close>

record ApplyNodeFunc =
  mlp :: MLP
  bn :: BatchNorm1d

record GINConv =
  apply_func :: ApplyNodeFunc
  aggregator_type :: string
  init_eps :: int
  learn_eps :: bool
  eps :: nat

record ('g, 't) backend =
  linear_fwd :: "Linear \<Rightarrow> 't \<Rightarrow> error + 't"
  batch_norm_fwd :: "BatchNorm1d \<Rightarrow> 't \<Rightarrow> error + 't"
  relu :: "'t \<Rightarrow> 't"
  gin_aggregate :: "GINConv \<Rightarrow> 'g \<Rightarrow> 't \<Rightarrow> error + 't"
  pool_fwd :: "pooling \<Rightarrow> 'g \<Rightarrow> 't \<Rightarrow> error + 't"
  dropout_fwd :: "Dropout \<Rightarrow> 't \<Rightarrow> 't"
  radd_int :: "int \<Rightarrow> 't \<Rightarrow> 't"
  add :: "'t \<Rightarrow> 't \<Rightarrow> error + 't"

section \<open>MLP.forward\<close>

text \<open>
  The loop \<^verbatim>\<open>h = F.relu(self.batch_norms[i](self.linears[i](h)))\<close>: Python evaluates the
  callee \<^verbatim>\<open>self.batch_norms[i]\<close> first, then the argument.
\<close>

fun MLP_forward_loop :: "('g, 't) backend \<Rightarrow> MLP \<Rightarrow> nat list \<Rightarrow> 't \<Rightarrow> error + 't" where
  "MLP_forward_loop ops m [] h = Inr h"
| "MLP_forward_loop ops m (i # rest) h =
     bind_err (getitem (batch_norms m) i) (\<lambda>b.
     bind_err (getitem (linears m) i) (\<lambda>l.
     bind_err (linear_fwd ops l h) (\<lambda>a.
     bind_err (batch_norm_fwd ops b a) (\<lambda>c.
       MLP_forward_loop ops m rest (relu ops c)))))"

definition MLP_forward :: "('g, 't) backend \<Rightarrow> MLP \<Rightarrow> 't \<Rightarrow> error + 't" where
  "MLP_forward ops m x =
     (if linear_or_not m then
        (case linear m of None \<Rightarrow> Inl AttributeError | Some l \<Rightarrow> linear_fwd ops l x)
      else
        bind_err (MLP_forward_loop ops m (py_range (num_layers m - 1)) x) (\<lambda>h.
        bind_err (getitem_last (linears m)) (\<lambda>l.
          linear_fwd ops l h)))"

section \<open>ApplyNodeFunc and the graph convolution\<close>

definition ApplyNodeFunc_init :: "MLP \<Rightarrow> nat \<Rightarrow> ApplyNodeFunc \<times> nat" where
  "ApplyNodeFunc_init m s =
     (case nn_BatchNorm1d (output_dim m) s of (b, s') \<Rightarrow> (\<lparr>mlp = m, bn = b\<rparr>, s'))"

definition ApplyNodeFunc_forward ::
  "('g, 't) backend \<Rightarrow> ApplyNodeFunc \<Rightarrow> 't \<Rightarrow> error + 't" where
  "ApplyNodeFunc_forward ops f h =
     bind_err (MLP_forward ops (mlp f) h) (\<lambda>h1.
     bind_err (batch_norm_fwd ops (bn f) h1) (\<lambda>h2.
       Inr (relu ops h2)))"

text \<open>
  \<^verbatim>\<open>GINConv\<close> is a class of the graph library. Its constructor raises \<^verbatim>\<open>KeyError\<close> for an
  aggregator type other than sum, max and mean, and allocates the epsilon tensor; its
  forward pass aggregates the neighbourhood and applies the node function to the result.
\<close>

definition GINConv_init ::
  "ApplyNodeFunc \<Rightarrow> string \<Rightarrow> int \<Rightarrow> bool \<Rightarrow> nat \<Rightarrow> error + (GINConv \<times> nat)" where
  "GINConv_init f agg e le s =
     (if agg \<noteq> ''sum'' \<and> agg \<noteq> ''max'' \<and> agg \<noteq> ''mean'' then Inl KeyError
      else Inr (\<lparr>apply_func = f, aggregator_type = agg, init_eps = e, learn_eps = le,
                 eps = s\<rparr>, Suc s))"

definition GINConv_forward :: "('g, 't) backend \<Rightarrow> GINConv \<Rightarrow> 'g \<Rightarrow> 't \<Rightarrow> error + 't" where
  "GINConv_forward ops c g h =
     bind_err (gin_aggregate ops c g h) (\<lambda>rst. ApplyNodeFunc_forward ops (apply_func c) rst)"

section \<open>GIN\<close>

record GIN =
  num_layers :: int
  learn_eps :: bool
  ginlayers :: "GINConv list"
  batch_norms :: "BatchNorm1d list"
  linears_prediction :: "Linear list"
  drop :: Dropout
  pool :: pooling

text \<open>The first loop of \<^verbatim>\<open>GIN.__init__\<close>: one graph convolution and one batch norm per layer.\<close>

fun GIN_init_layers ::
  "nat list \<Rightarrow> int \<Rightarrow> nat \<Rightarrow> nat \<Rightarrow> bool \<Rightarrow> string \<Rightarrow> GINConv list \<Rightarrow> BatchNorm1d list \<Rightarrow> nat
   \<Rightarrow> error + (GINConv list \<times> BatchNorm1d list \<times> nat)" where
  "GIN_init_layers [] num_mlp_layers input_dim hidden_dim le npt gl bns s = Inr (gl, bns, s)"
| "GIN_init_layers (layer # rest) num_mlp_layers input_dim hidden_dim le npt gl bns s =
     bind_err (if layer = 0 then MLP_init num_mlp_layers input_dim hidden_dim hidden_dim s
               else MLP_init num_mlp_layers hidden_dim hidden_dim hidden_dim s) (\<lambda>(m, s1).
     case ApplyNodeFunc_init m s1 of (f, s2) \<Rightarrow>
     bind_err (GINConv_init f npt 0 le s2) (\<lambda>(c, s3).
     case nn_BatchNorm1d hidden_dim s3 of (b, s4) \<Rightarrow>
       GIN_init_layers rest num_mlp_layers input_dim hidden_dim le npt (gl @ [c]) (bns @ [b]) s4))"

text \<open>The second loop: one prediction head per layer representation.\<close>

fun GIN_init_heads ::
  "nat list \<Rightarrow> nat \<Rightarrow> nat \<Rightarrow> nat \<Rightarrow> Linear list \<Rightarrow> nat \<Rightarrow> Linear list \<times> nat" where
  "GIN_init_heads [] input_dim hidden_dim out_dim acc s = (acc, s)"
| "GIN_init_heads (layer # rest) input_dim hidden_dim out_dim acc s =
     (case (if layer = 0 then nn_Linear input_dim out_dim s
            else nn_Linear hidden_dim out_dim s) of (l, s') \<Rightarrow>
        GIN_init_heads rest input_dim hidden_dim out_dim (acc @ [l]) s')"

definition GIN_init ::
  "int \<Rightarrow> int \<Rightarrow> nat \<Rightarrow> nat \<Rightarrow> nat \<Rightarrow> real \<Rightarrow> bool \<Rightarrow> string \<Rightarrow> string \<Rightarrow> nat
   \<Rightarrow> error + (GIN \<times> nat)" where
  "GIN_init n num_mlp_layers input_dim hidden_dim out_dim final_dropout le
            graph_pooling_type neighbor_pooling_type s =
     bind_err (GIN_init_layers (py_range (n - 1)) num_mlp_layers input_dim hidden_dim le
                 neighbor_pooling_type [] [] s) (\<lambda>(gl, bns, s1).
     case GIN_init_heads (py_range n) input_dim hidden_dim out_dim [] s1 of (heads, s2) \<Rightarrow>
     bind_err (nn_Dropout final_dropout) (\<lambda>d.
     bind_err (if graph_pooling_type = ''sum'' then Inr SumPooling
               else if graph_pooling_type = ''mean'' then Inr AvgPooling
               else if graph_pooling_type = ''max'' then Inr MaxPooling
               else Inl NotImplementedError) (\<lambda>pl.
       Inr (\<lparr>num_layers = n, learn_eps = le, ginlayers = gl, batch_norms = bns,
             linears_prediction = heads, drop = d, pool = pl\<rparr>, s2))))"

section \<open>GIN.forward\<close>

text \<open>The first loop collects the hidden representations, starting from \<open>[h]\<close>.\<close>

fun GIN_forward_layers ::
  "('g, 't) backend \<Rightarrow> GIN \<Rightarrow> 'g \<Rightarrow> nat list \<Rightarrow> 't \<Rightarrow> 't list \<Rightarrow> error + 't list" where
  "GIN_forward_layers ops m g [] h hidden_rep = Inr hidden_rep"
| "GIN_forward_layers ops m g (i # rest) h hidden_rep =
     bind_err (getitem (ginlayers m) i) (\<lambda>c.
     bind_err (GINConv_forward ops c g h) (\<lambda>h1.
     bind_err (getitem (GIN.batch_norms m) i) (\<lambda>b.
     bind_err (batch_norm_fwd ops b h1) (\<lambda>h2.
       GIN_forward_layers ops m g rest (relu ops h2) (hidden_rep @ [relu ops h2])))))"

text \<open>\<^verbatim>\<open>score_over_layer += t\<close>.\<close>

fun iadd :: "('g, 't) backend \<Rightarrow> 't pyval \<Rightarrow> 't \<Rightarrow> error + 't pyval" where
  "iadd ops (PyInt k) t = Inr (Tensor (radd_int ops k t))"
| "iadd ops (Tensor a) t = bind_err (add ops a t) (\<lambda>r. Inr (Tensor r))"

text \<open>The second loop, over \<^verbatim>\<open>enumerate(hidden_rep)\<close>.\<close>

fun GIN_forward_scores ::
  "('g, 't) backend \<Rightarrow> GIN \<Rightarrow> 'g \<Rightarrow> (nat \<times> 't) list \<Rightarrow> 't pyval \<Rightarrow> error + 't pyval" where
  "GIN_forward_scores ops m g [] score_over_layer = Inr score_over_layer"
| "GIN_forward_scores ops m g ((i, h) # rest) score_over_layer =
     bind_err (pool_fwd ops (pool m) g h) (\<lambda>pooled_h.
     bind_err (getitem (linears_prediction m) i) (\<lambda>l.
     bind_err (linear_fwd ops l pooled_h) (\<lambda>y.
     bind_err (iadd ops score_over_layer (dropout_fwd ops (drop m) y)) (\<lambda>score'.
       GIN_forward_scores ops m g rest score'))))"

definition GIN_forward :: "('g, 't) backend \<Rightarrow> GIN \<Rightarrow> 'g \<Rightarrow> 't \<Rightarrow> error + 't pyval" where
  "GIN_forward ops m g h =
     bind_err (GIN_forward_layers ops m g (py_range (GIN.num_layers m - 1)) h [h])
       (\<lambda>hidden_rep.
          GIN_forward_scores ops m g (enumerate 0 hidden_rep) (PyInt 0))"

section \<open>The layer stack and the sum of layer scores, as specified\<close>

text \<open>
  The multi-layer perceptron as the specification describes it: the linear transforms are
  applied in sequence, each but the last followed by its batch normalisation and a ReLU;
  the output of the last one is returned as it is.
\<close>

fun linear_stack ::
  "('g, 't) backend \<Rightarrow> Linear list \<Rightarrow> BatchNorm1d list \<Rightarrow> 't \<Rightarrow> error + 't" where
  "linear_stack ops [] bs x = Inl IndexError"
| "linear_stack ops (l # ls) bs x =
     bind_err (linear_fwd ops l x) (\<lambda>a.
       if ls = [] then Inr a
       else (case bs of
               [] \<Rightarrow> Inl IndexError
             | b # bs' \<Rightarrow>
                 bind_err (batch_norm_fwd ops b a) (\<lambda>c. linear_stack ops ls bs' (relu ops c))))"

text \<open>
  The representation of layer \<open>k\<close>: layer \<open>0\<close> is the raw input, layer \<open>k + 1\<close> is the ReLU
  of the batch normalisation of graph convolution \<open>k\<close> applied to layer \<open>k\<close>.
\<close>

fun layer_rep :: "('g, 't) backend \<Rightarrow> GIN \<Rightarrow> 'g \<Rightarrow> 't \<Rightarrow> nat \<Rightarrow> error + 't" where
  "layer_rep ops m g x 0 = Inr x"
| "layer_rep ops m g x (Suc k) =
     bind_err (layer_rep ops m g x k) (\<lambda>hk.
     bind_err (getitem (ginlayers m) k) (\<lambda>c.
     bind_err (GINConv_forward ops c g hk) (\<lambda>h1.
     bind_err (getitem (GIN.batch_norms m) k) (\<lambda>b.
     bind_err (batch_norm_fwd ops b h1) (\<lambda>h2.
       Inr (relu ops h2))))))"

text \<open>
  The score of layer \<open>k\<close>: dropout of prediction head \<open>k\<close> applied to the pooled
  representation of layer \<open>k\<close>.
\<close>

definition layer_score :: "('g, 't) backend \<Rightarrow> GIN \<Rightarrow> 'g \<Rightarrow> 't \<Rightarrow> nat \<Rightarrow> error + 't" where
  "layer_score ops m g x k =
     bind_err (layer_rep ops m g x k) (\<lambda>hk.
     bind_err (pool_fwd ops (pool m) g hk) (\<lambda>pooled.
     bind_err (getitem (linears_prediction m) k) (\<lambda>l.
     bind_err (linear_fwd ops l pooled) (\<lambda>y.
       Inr (dropout_fwd ops (drop m) y)))))"

text \<open>The sum of a list of scores, added from the left to the initial value.\<close>

fun sum_scores :: "('g, 't) backend \<Rightarrow> (error + 't) list \<Rightarrow> 't pyval \<Rightarrow> error + 't pyval" where
  "sum_scores ops [] acc = Inr acc"
| "sum_scores ops (t # ts) acc =
     bind_err t (\<lambda>y. bind_err (iadd ops acc y) (\<lambda>acc'. sum_scores ops ts acc'))"

definition layer_score_sum :: "('g, 't) backend \<Rightarrow> GIN \<Rightarrow> 'g \<Rightarrow> 't \<Rightarrow> error + 't pyval" where
  "layer_score_sum ops m g x =
     sum_scores ops (map (layer_score ops m g x) [0..<nat (GIN.num_layers m)]) (PyInt 0)"

section \<open>Tensor shapes\<close>

text \<open>
  The backend that computes with shapes only: a tensor is the list of its dimensions, a
  batched graph is its number of nodes and its number of graphs. The rules are those of
  the libraries. A linear layer replaces the last dimension, which must be its input size.
  Batch normalisation takes a tensor of rank 2 or 3 whose second dimension is its number of
  features and keeps the shape; in training mode it rejects a batch with a single value per
  channel. ReLU and dropout keep the shape. The neighbourhood aggregation and the pooling
  need one row per node; pooling returns one row per graph. Adding an integer keeps the
  shape, adding two tensors broadcasts them.
\<close>

record batched_graph =
  num_nodes :: nat
  batch_size :: nat

fun broadcast_rev :: "nat list \<Rightarrow> nat list \<Rightarrow> error + nat list" where
  "broadcast_rev [] ys = Inr ys"
| "broadcast_rev (x # xs) [] = Inr (x # xs)"
| "broadcast_rev (x # xs) (y # ys) =
     (if x = y \<or> y = 1 then bind_err (broadcast_rev xs ys) (\<lambda>r. Inr (x # r))
      else if x = 1 then bind_err (broadcast_rev xs ys) (\<lambda>r. Inr (y # r))
      else Inl RuntimeError)"

definition broadcast :: "nat list \<Rightarrow> nat list \<Rightarrow> error + nat list" where
  "broadcast a b = bind_err (broadcast_rev (rev a) (rev b)) (\<lambda>r. Inr (rev r))"

definition shape_backend :: "bool \<Rightarrow> (batched_graph, nat list) backend" where
  "shape_backend training =
     \<lparr>linear_fwd = (\<lambda>l s.
        if s \<noteq> [] \<and> last s = in_features l then Inr (butlast s @ [out_features l])
        else Inl RuntimeError),
      batch_norm_fwd = (\<lambda>b s.
        if length s \<noteq> 2 \<and> length s \<noteq> 3 then Inl ValueError
        else if training \<and> hd s * prod_list (List.drop 2 s) = 1 then Inl ValueError
        else if s ! 1 \<noteq> num_features b then Inl RuntimeError
        else Inr s),
      relu = (\<lambda>s. s),
      gin_aggregate = (\<lambda>c g s.
        if s \<noteq> [] \<and> hd s = num_nodes g then Inr s else Inl DGLError),
      pool_fwd = (\<lambda>p g s.
        if s \<noteq> [] \<and> hd s = num_nodes g then Inr (batch_size g # tl s) else Inl DGLError),
      dropout_fwd = (\<lambda>d s. s),
      radd_int = (\<lambda>k s. s),
      add = broadcast\<rparr>"

section \<open>Real-valued evaluation on a single node\<close>









section \<open>Basic facts\<close>

lemma bind_err_Inr_iff: "bind_err x f = Inr y \<longleftrightarrow> (\<exists>a. x = Inr a \<and> f a = Inr y)"
  by (cases x) simp_all

lemma bind_err_Inl_iff:
  "bind_err x f = Inl e \<longleftrightarrow> x = Inl e \<or> (\<exists>a. x = Inr a \<and> f a = Inl e)"
  by (cases x) simp_all

lemma py_range_nonpos: "n \<le> 0 \<Longrightarrow> py_range n = []"
  by (simp add: py_range_def)

lemma py_range_pos: "1 \<le> n \<Longrightarrow> py_range n = 0 # [1..<nat n]"
  by (simp add: py_range_def upt_conv_Cons)

lemma length_py_range: "length (py_range n) = nat n"
  by (simp add: py_range_def)

section \<open>Validation in the constructors\<close>

lemma MLP_init_nonpos: "n < 1 \<Longrightarrow> MLP_init n i h od s = Inl ValueError"
  by (simp add: MLP_init_def)

lemma MLP_init_pos: "1 \<le> n \<Longrightarrow> \<exists>m s'. MLP_init n i h od s = Inr (m, s')"
  by (auto simp: MLP_init_def split: prod.splits)

lemma GIN_init_layers_first_ValueError:
  "nmlp < 1 \<Longrightarrow> GIN_init_layers (layer # rest) nmlp i h le npt gl bns s = Inl ValueError"
  by (simp add: MLP_init_nonpos)

lemma GIN_init_layers_first_KeyError:
  assumes "1 \<le> nmlp" "npt \<noteq> ''sum''" "npt \<noteq> ''max''" "npt \<noteq> ''mean''"
  shows "GIN_init_layers (layer # rest) nmlp i h le npt gl bns s = Inl KeyError"
proof -
  obtain m s1 where m: "MLP_init nmlp (if layer = 0 then i else h) h h s = Inr (m, s1)"
    using MLP_init_pos[OF assms(1)] by blast
  obtain f s2 where f: "ApplyNodeFunc_init m s1 = (f, s2)"
    by (cases "ApplyNodeFunc_init m s1")
  have "GINConv_init f npt 0 le s2 = Inl KeyError"
    using assms by (simp add: GINConv_init_def)
  with m f show ?thesis by (cases "layer = 0") simp_all
qed

lemma GIN_init_Inr:
  assumes "GIN_init n nmlp i h od fd le gpt npt s = Inr (m, s')"
  shows "\<exists>gl bns s1 heads d pl.
           GIN_init_layers (py_range (n - 1)) nmlp i h le npt [] [] s = Inr (gl, bns, s1)
           \<and> GIN_init_heads (py_range n) i h od [] s1 = (heads, s')
           \<and> nn_Dropout fd = Inr d
           \<and> ((gpt = ''sum'' \<and> pl = SumPooling) \<or> (gpt = ''mean'' \<and> pl = AvgPooling)
                \<or> (gpt = ''max'' \<and> pl = MaxPooling))
           \<and> m = \<lparr>num_layers = n, learn_eps = le, ginlayers = gl, batch_norms = bns,
                   linears_prediction = heads, drop = d, pool = pl\<rparr>"
proof (cases "GIN_init_layers (py_range (n - 1)) nmlp i h le npt [] [] s")
  case (Inl e)
  with assms show ?thesis by (simp add: GIN_init_def)
next
  case (Inr r)
  obtain gl bns s1 where r: "r = (gl, bns, s1)" by (cases r)
  obtain heads s2 where hd: "GIN_init_heads (py_range n) i h od [] s1 = (heads, s2)"
    by (cases "GIN_init_heads (py_range n) i h od [] s1")
  from assms Inr r hd show ?thesis
    by (auto simp: GIN_init_def bind_err_Inr_iff split: if_splits)
qed

text \<open>
  Claim C3, as stated, fails: neither layer count is checked by \<^verbatim>\<open>GIN.__init__\<close> itself.
  With \<^verbatim>\<open>num_layers = 0\<close> and \<^verbatim>\<open>num_mlp_layers = 0\<close> both loops are empty and the
  construction succeeds.
\<close>

theorem GIN_init_nonpositive_counterexample:
  "GIN_init 0 0 3 4 2 (1/2) False ''sum'' ''sum'' 0 =
     Inr (\<lparr>num_layers = 0, learn_eps = False, ginlayers = [], batch_norms = [],
           linears_prediction = [], drop = \<lparr>dropout_p = 1/2\<rparr>, pool = SumPooling\<rparr>, 0)"
  by (simp add: GIN_init_def py_range_def nn_Dropout_def)

text \<open>
  Claim C3, amended: the only layer-count check is the one of \<^verbatim>\<open>MLP.__init__\<close>, which runs
  when a graph convolution is built. With \<^verbatim>\<open>num_layers \<ge> 2\<close>, a \<^verbatim>\<open>num_mlp_layers\<close> below 1
  makes the construction raise \<^verbatim>\<open>ValueError\<close>. With \<^verbatim>\<open>num_layers \<le> 1\<close> no MLP is built and
  the construction succeeds for every \<^verbatim>\<open>num_mlp_layers\<close>, given a dropout ratio in \<open>[0, 1]\<close>
  and a recognised graph pooling type.
\<close>

theorem GIN_init_layer_counts:
  "(2 \<le> n \<and> nmlp < 1 \<longrightarrow>
      GIN_init n nmlp i h od fd le gpt npt s = Inl ValueError)
   \<and> (n \<le> 1 \<and> 0 \<le> fd \<and> fd \<le> 1 \<and> (gpt = ''sum'' \<or> gpt = ''mean'' \<or> gpt = ''max'') \<longrightarrow>
      (\<exists>m s'. GIN_init n nmlp i h od fd le gpt npt s = Inr (m, s')))"
proof (intro conjI impI)
  assume "2 \<le> n \<and> nmlp < 1"
  then have "py_range (n - 1) = 0 # [1..<nat (n - 1)]" "nmlp < 1"
    by (simp_all add: py_range_pos)
  then show "GIN_init n nmlp i h od fd le gpt npt s = Inl ValueError"
    by (simp add: GIN_init_def MLP_init_nonpos)
next
  assume a: "n \<le> 1 \<and> 0 \<le> fd \<and> fd \<le> 1 \<and> (gpt = ''sum'' \<or> gpt = ''mean'' \<or> gpt = ''max'')"
  then have "py_range (n - 1) = []" by (simp add: py_range_nonpos)
  with a show "\<exists>m s'. GIN_init n nmlp i h od fd le gpt npt s = Inr (m, s')"
    by (auto simp: GIN_init_def nn_Dropout_def split: prod.splits)
qed

theorem GIN_init_layer_counts_witness:
  "GIN_init 2 0 3 4 2 (1/2) False ''sum'' ''sum'' 0 = Inl ValueError
   \<and> \<not> isl (GIN_init 1 0 3 4 2 (1/2) False ''sum'' ''sum'' 0)"
  using GIN_init_layer_counts [where n = 2 and nmlp = 0 and i = 3 and h = 4 and od = 2
      and fd = "1/2" and le = False and gpt = "''sum''" and npt = "''sum''" and s = 0]
    GIN_init_layer_counts [where n = 1 and nmlp = 0 and i = 3 and h = 4 and od = 2
      and fd = "1/2" and le = False and gpt = "''sum''" and npt = "''sum''" and s = 0]
  by auto

lemma GIN_init_layers_ok:
  assumes "1 \<le> nmlp" "npt = ''sum'' \<or> npt = ''max'' \<or> npt = ''mean''"
  shows "\<exists>r. GIN_init_layers ks nmlp i h le npt gl bns s = Inr r"
proof (induction ks arbitrary: gl bns s)
  case Nil
  show ?case by simp
next
  case (Cons layer rest)
  obtain m s1 where m: "MLP_init nmlp (if layer = 0 then i else h) h h s = Inr (m, s1)"
    using MLP_init_pos[OF assms(1)] by blast
  obtain f s2 where f: "ApplyNodeFunc_init m s1 = (f, s2)"
    by (cases "ApplyNodeFunc_init m s1")
  obtain c s3 where c: "GINConv_init f npt 0 le s2 = Inr (c, s3)"
    using assms(2) by (auto simp: GINConv_init_def)
  obtain b s4 where b: "nn_BatchNorm1d h s3 = (b, s4)"
    by (cases "nn_BatchNorm1d h s3")
  from Cons.IH[of "gl @ [c]" "bns @ [b]" s4] m f c b show ?case
    by (cases "layer = 0") simp_all
qed

lemma GIN_init_pool:
  assumes "GIN_init_layers (py_range (n - 1)) nmlp i h le npt [] [] s = Inr r"
    and "0 \<le> fd" "fd \<le> 1"
  shows "(gpt = ''sum'' \<longrightarrow>
            (\<exists>m s'. GIN_init n nmlp i h od fd le gpt npt s = Inr (m, s') \<and> pool m = SumPooling))
       \<and> (gpt = ''mean'' \<longrightarrow>
            (\<exists>m s'. GIN_init n nmlp i h od fd le gpt npt s = Inr (m, s') \<and> pool m = AvgPooling))
       \<and> (gpt = ''max'' \<longrightarrow>
            (\<exists>m s'. GIN_init n nmlp i h od fd le gpt npt s = Inr (m, s') \<and> pool m = MaxPooling))
       \<and> (gpt \<noteq> ''sum'' \<and> gpt \<noteq> ''mean'' \<and> gpt \<noteq> ''max'' \<longrightarrow>
            GIN_init n nmlp i h od fd le gpt npt s = Inl NotImplementedError)"
proof -
  obtain gl bns s1 where r: "r = (gl, bns, s1)" by (cases r)
  obtain heads s2 where hd: "GIN_init_heads (py_range n) i h od [] s1 = (heads, s2)"
    by (cases "GIN_init_heads (py_range n) i h od [] s1")
  from assms r hd show ?thesis
    by (simp add: GIN_init_def nn_Dropout_def)
qed

text \<open>
  Claim C4: a graph pooling type of \<^verbatim>\<open>'sum'\<close>, \<^verbatim>\<open>'mean'\<close> or \<^verbatim>\<open>'max'\<close> selects sum, average
  or max pooling in the constructed model, and with any other graph pooling type the
  construction raises. Whenever the other arguments are acceptable (no graph convolution
  is built, or the MLP layer count is positive and the neighbour pooling type is
  recognised; the dropout ratio is in \<open>[0, 1]\<close>), each of the three recognised types makes
  the construction succeed with the corresponding pooling stored in \<^verbatim>\<open>pool\<close>, and any other
  type makes it raise \<^verbatim>\<open>NotImplementedError\<close>. Whatever the other arguments are, a
  construction that succeeds has stored the pooling selected by a recognised type, and a
  construction with an unrecognised type raises.
\<close>

theorem GIN_init_graph_pooling:
  "((n \<le> 1 \<or> (1 \<le> nmlp \<and> (npt = ''sum'' \<or> npt = ''max'' \<or> npt = ''mean'')))
      \<and> 0 \<le> fd \<and> fd \<le> 1 \<longrightarrow>
      (gpt = ''sum'' \<longrightarrow>
         (\<exists>m s'. GIN_init n nmlp i h od fd le gpt npt s = Inr (m, s') \<and> pool m = SumPooling))
      \<and> (gpt = ''mean'' \<longrightarrow>
         (\<exists>m s'. GIN_init n nmlp i h od fd le gpt npt s = Inr (m, s') \<and> pool m = AvgPooling))
      \<and> (gpt = ''max'' \<longrightarrow>
         (\<exists>m s'. GIN_init n nmlp i h od fd le gpt npt s = Inr (m, s') \<and> pool m = MaxPooling))
      \<and> (gpt \<noteq> ''sum'' \<and> gpt \<noteq> ''mean'' \<and> gpt \<noteq> ''max'' \<longrightarrow>
         GIN_init n nmlp i h od fd le gpt npt s = Inl NotImplementedError))
   \<and> (\<forall>m s'. GIN_init n nmlp i h od fd le gpt npt s = Inr (m, s') \<longrightarrow>
        (gpt = ''sum'' \<and> pool m = SumPooling) \<or> (gpt = ''mean'' \<and> pool m = AvgPooling)
        \<or> (gpt = ''max'' \<and> pool m = MaxPooling))
   \<and> (gpt \<noteq> ''sum'' \<and> gpt \<noteq> ''mean'' \<and> gpt \<noteq> ''max'' \<longrightarrow>
        (\<exists>e. GIN_init n nmlp i h od fd le gpt npt s = Inl e))"
proof (intro conjI)
  show "(n \<le> 1 \<or> (1 \<le> nmlp \<and> (npt = ''sum'' \<or> npt = ''max'' \<or> npt = ''mean'')))
      \<and> 0 \<le> fd \<and> fd \<le> 1 \<longrightarrow>
      (gpt = ''sum'' \<longrightarrow>
         (\<exists>m s'. GIN_init n nmlp i h od fd le gpt npt s = Inr (m, s') \<and> pool m = SumPooling))
      \<and> (gpt = ''mean'' \<longrightarrow>
         (\<exists>m s'. GIN_init n nmlp i h od fd le gpt npt s = Inr (m, s') \<and> pool m = AvgPooling))
      \<and> (gpt = ''max'' \<longrightarrow>
         (\<exists>m s'. GIN_init n nmlp i h od fd le gpt npt s = Inr (m, s') \<and> pool m = MaxPooling))
      \<and> (gpt \<noteq> ''sum'' \<and> gpt \<noteq> ''mean'' \<and> gpt \<noteq> ''max'' \<longrightarrow>
         GIN_init n nmlp i h od fd le gpt npt s = Inl NotImplementedError)"
  proof
    assume a: "(n \<le> 1 \<or> (1 \<le> nmlp \<and> (npt = ''sum'' \<or> npt = ''max'' \<or> npt = ''mean'')))
      \<and> 0 \<le> fd \<and> fd \<le> 1"
    have "\<exists>r. GIN_init_layers (py_range (n - 1)) nmlp i h le npt [] [] s = Inr r"
    proof (cases "n \<le> 1")
      case True
      then show ?thesis by (simp add: py_range_nonpos)
    next
      case False
      with a show ?thesis by (intro GIN_init_layers_ok) auto
    qed
    then obtain r where
      "GIN_init_layers (py_range (n - 1)) nmlp i h le npt [] [] s = Inr r" ..
    from GIN_init_pool[OF this, of fd gpt od] a
    show "(gpt = ''sum'' \<longrightarrow>
         (\<exists>m s'. GIN_init n nmlp i h od fd le gpt npt s = Inr (m, s') \<and> pool m = SumPooling))
      \<and> (gpt = ''mean'' \<longrightarrow>
         (\<exists>m s'. GIN_init n nmlp i h od fd le gpt npt s = Inr (m, s') \<and> pool m = AvgPooling))
      \<and> (gpt = ''max'' \<longrightarrow>
         (\<exists>m s'. GIN_init n nmlp i h od fd le gpt npt s = Inr (m, s') \<and> pool m = MaxPooling))
      \<and> (gpt \<noteq> ''sum'' \<and> gpt \<noteq> ''mean'' \<and> gpt \<noteq> ''max'' \<longrightarrow>
         GIN_init n nmlp i h od fd le gpt npt s = Inl NotImplementedError)"
      by blast
  qed
next
  show "\<forall>m s'. GIN_init n nmlp i h od fd le gpt npt s = Inr (m, s') \<longrightarrow>
        (gpt = ''sum'' \<and> pool m = SumPooling) \<or> (gpt = ''mean'' \<and> pool m = AvgPooling)
        \<or> (gpt = ''max'' \<and> pool m = MaxPooling)"
  proof (intro allI impI)
    fix m s'
    assume "GIN_init n nmlp i h od fd le gpt npt s = Inr (m, s')"
    from GIN_init_Inr[OF this]
    show "(gpt = ''sum'' \<and> pool m = SumPooling) \<or> (gpt = ''mean'' \<and> pool m = AvgPooling)
        \<or> (gpt = ''max'' \<and> pool m = MaxPooling)"
      by auto
  qed
next
  show "gpt \<noteq> ''sum'' \<and> gpt \<noteq> ''mean'' \<and> gpt \<noteq> ''max'' \<longrightarrow>
        (\<exists>e. GIN_init n nmlp i h od fd le gpt npt s = Inl e)"
  proof
    assume a: "gpt \<noteq> ''sum'' \<and> gpt \<noteq> ''mean'' \<and> gpt \<noteq> ''max''"
    show "\<exists>e. GIN_init n nmlp i h od fd le gpt npt s = Inl e"
    proof (cases "GIN_init n nmlp i h od fd le gpt npt s")
      case (Inl e)
      then show ?thesis by blast
    next
      case (Inr r)
      obtain m s' where "r = (m, s')" by (cases r)
      with Inr GIN_init_Inr[of n nmlp i h od fd le gpt npt s m s'] a have False
        by auto
      then show ?thesis ..
    qed
  qed
qed

theorem GIN_init_graph_pooling_witness:
  "pool (fst (projr (GIN_init 3 2 3 4 2 (1/2) False ''sum'' ''sum'' 0))) = SumPooling
   \<and> pool (fst (projr (GIN_init 3 2 3 4 2 (1/2) False ''mean'' ''sum'' 0))) = AvgPooling
   \<and> pool (fst (projr (GIN_init 3 2 3 4 2 (1/2) False ''max'' ''sum'' 0))) = MaxPooling
   \<and> \<not> isl (GIN_init 3 2 3 4 2 (1/2) False ''sum'' ''sum'' 0)
   \<and> \<not> isl (GIN_init 3 2 3 4 2 (1/2) False ''mean'' ''sum'' 0)
   \<and> \<not> isl (GIN_init 3 2 3 4 2 (1/2) False ''max'' ''sum'' 0)
   \<and> GIN_init 3 2 3 4 2 (1/2) False ''median'' ''sum'' 0 = Inl NotImplementedError"
  using GIN_init_graph_pooling [where n = 3 and nmlp = 2 and i = 3 and h = 4 and od = 2
      and fd = "1/2" and le = False and gpt = "''sum''" and npt = "''sum''" and s = 0]
    GIN_init_graph_pooling [where n = 3 and nmlp = 2 and i = 3 and h = 4 and od = 2
      and fd = "1/2" and le = False and gpt = "''mean''" and npt = "''sum''" and s = 0]
    GIN_init_graph_pooling [where n = 3 and nmlp = 2 and i = 3 and h = 4 and od = 2
      and fd = "1/2" and le = False and gpt = "''max''" and npt = "''sum''" and s = 0]
    GIN_init_graph_pooling [where n = 3 and nmlp = 2 and i = 3 and h = 4 and od = 2
      and fd = "1/2" and le = False and gpt = "''median''" and npt = "''sum''" and s = 0]
  by auto

text \<open>
  Claim C5, as stated, fails: the neighbour pooling type is only inspected by the graph
  convolution's constructor, and with \<^verbatim>\<open>num_layers = 1\<close> no graph convolution is built, so
  an unrecognised neighbour pooling type is accepted.
\<close>

theorem GIN_init_neighbor_pooling_counterexample:
  "GIN_init 1 1 3 4 2 (1/2) False ''sum'' ''bogus'' 0 =
     Inr (\<lparr>num_layers = 1, learn_eps = False, ginlayers = [], batch_norms = [],
           linears_prediction = [\<lparr>in_features = 3, out_features = 2, linear_params = 0\<rparr>],
           drop = \<lparr>dropout_p = 1/2\<rparr>, pool = SumPooling\<rparr>, 1)"
  by (simp add: GIN_init_def py_range_def nn_Dropout_def nn_Linear_def)

text \<open>
  Claim C5, amended: with \<^verbatim>\<open>num_layers \<ge> 2\<close>, a neighbour pooling type outside
  \<^verbatim>\<open>'sum'\<close>, \<^verbatim>\<open>'mean'\<close>, \<^verbatim>\<open>'max'\<close> makes the construction raise: \<^verbatim>\<open>KeyError\<close> from the first
  graph convolution, or \<^verbatim>\<open>ValueError\<close> from the MLP built before it when
  \<^verbatim>\<open>num_mlp_layers\<close> is below 1.
\<close>

theorem GIN_init_neighbor_pooling:
  assumes "2 \<le> n" "npt \<noteq> ''sum''" "npt \<noteq> ''mean''" "npt \<noteq> ''max''"
  shows "GIN_init n nmlp i h od fd le gpt npt s =
           Inl (if nmlp < 1 then ValueError else KeyError)"
proof -
  from assms(1) have r: "py_range (n - 1) = 0 # [1..<nat (n - 1)]"
    by (simp add: py_range_pos)
  show ?thesis
  proof (cases "nmlp < 1")
    case True
    then show ?thesis
      unfolding GIN_init_def r
      by (simp only: GIN_init_layers_first_ValueError bind_err.simps if_True)
  next
    case False
    then have "1 \<le> nmlp" by simp
    from GIN_init_layers_first_KeyError[OF this assms(2) assms(4) assms(3)] False
    show ?thesis
      unfolding GIN_init_def r by (simp only: bind_err.simps if_False)
  qed
qed

theorem GIN_init_neighbor_pooling_witness:
  "GIN_init 2 1 3 4 2 (1/2) False ''sum'' ''bogus'' 0 = Inl KeyError"
  using GIN_init_neighbor_pooling [where n = 2 and npt = "''bogus''" and nmlp = 1 and i = 3
      and h = 4 and od = 2 and fd = "1/2" and le = False and gpt = "''sum''" and s = 0]
  by simp

section \<open>The structure built by MLP.__init__\<close>

lemma bind_err_Inr_right: "bind_err y Inr = y"
  by (cases y) simp_all

lemma bind_err_assoc:
  "bind_err (bind_err y f) g = bind_err y (\<lambda>a. bind_err (f a) g)"
  by (cases y) simp_all

lemma getitem_in: "k < length xs \<Longrightarrow> getitem xs k = Inr (xs ! k)"
  by (simp add: getitem_def)

lemma getitem_out: "length xs \<le> k \<Longrightarrow> getitem xs k = Inl IndexError"
  by (simp add: getitem_def)

lemma append_linears_eq:
  "append_linears ks d_in d_out acc s =
     (acc @ map (\<lambda>p. \<lparr>in_features = d_in, out_features = d_out, linear_params = p\<rparr>)
              [s..<s + length ks],
      s + length ks)"
proof (induction ks arbitrary: acc s)
  case Nil
  show ?case by simp
next
  case (Cons k ks)
  have "[s..<s + Suc (length ks)] = s # [Suc s..<s + Suc (length ks)]"
    by (rule upt_conv_Cons) simp
  with Cons.IH[of "acc @ [fst (nn_Linear d_in d_out s)]" "Suc s"] show ?case
    by (simp add: nn_Linear_def del: upt_Suc)
qed

lemma append_batch_norms_eq:
  "append_batch_norms ks d acc s =
     (acc @ map (\<lambda>p. \<lparr>num_features = d, bn_params = p\<rparr>) [s..<s + length ks],
      s + length ks)"
proof (induction ks arbitrary: acc s)
  case Nil
  show ?case by simp
next
  case (Cons k ks)
  have "[s..<s + Suc (length ks)] = s # [Suc s..<s + Suc (length ks)]"
    by (rule upt_conv_Cons) simp
  with Cons.IH[of "acc @ [fst (nn_BatchNorm1d d s)]" "Suc s"] show ?case
    by (simp add: nn_BatchNorm1d_def del: upt_Suc)
qed

lemma MLP_init_one:
  "MLP_init 1 i h od s =
     Inr (\<lparr>linear_or_not = True, num_layers = 1, output_dim = od,
           linear = Some \<lparr>in_features = i, out_features = od, linear_params = s\<rparr>,
           linears = [], batch_norms = []\<rparr>, Suc s)"
  by (simp add: MLP_init_def nn_Linear_def)

lemma MLP_init_multi:
  assumes "2 \<le> n"
  shows "MLP_init n i h od s =
     Inr (\<lparr>linear_or_not = False, num_layers = n, output_dim = od, linear = None,
           linears =
             \<lparr>in_features = i, out_features = h, linear_params = s\<rparr>
             # map (\<lambda>p. \<lparr>in_features = h, out_features = h, linear_params = p\<rparr>)
                 [Suc s..<Suc s + nat (n - 2)]
             @ [\<lparr>in_features = h, out_features = od, linear_params = Suc s + nat (n - 2)\<rparr>],
           batch_norms =
             map (\<lambda>p. \<lparr>num_features = h, bn_params = p\<rparr>)
               [Suc (Suc s + nat (n - 2))..<Suc (Suc s + nat (n - 2)) + nat (n - 1)]\<rparr>,
          Suc (Suc s + nat (n - 2)) + nat (n - 1))"
  using assms
  by (simp add: MLP_init_def nn_Linear_def append_linears_eq append_batch_norms_eq
      length_py_range del: upt_Suc)

lemma MLP_init_multi_props:
  assumes "2 \<le> n" "MLP_init n i h od s = Inr (m, s')"
  shows "\<not> linear_or_not m" "linear m = None" "MLP.num_layers m = n"
    "length (linears m) = nat n" "length (MLP.batch_norms m) = nat (n - 1)"
    "length (linears m) = Suc (length (MLP.batch_norms m))"
  using assms
  by (auto simp: MLP_init_def nn_Linear_def append_linears_eq append_batch_norms_eq
      length_py_range simp del: upt_Suc split: if_splits)


section \<open>MLP.forward and the layer stack\<close>

lemma MLP_forward_loop_stack:
  assumes len: "length (linears m) = Suc (length (MLP.batch_norms m))"
  shows "k \<le> length (MLP.batch_norms m) \<Longrightarrow>
    bind_err (MLP_forward_loop ops m [k..<length (MLP.batch_norms m)] x)
      (\<lambda>h. bind_err (getitem_last (linears m)) (\<lambda>l. linear_fwd ops l h))
    = linear_stack ops (List.drop k (linears m)) (List.drop k (MLP.batch_norms m)) x"
proof (induction "length (MLP.batch_norms m) - k" arbitrary: k x)
  case 0
  then have k: "k = length (MLP.batch_norms m)" by simp
  from len have ne: "linears m \<noteq> []" by auto
  from len k have "List.drop k (linears m) = [last (linears m)]"
    by (metis ne append_butlast_last_id append_eq_conv_conj diff_Suc_1 length_butlast)
  with k ne show ?case
    by (simp add: getitem_last_def bind_err_Inr_right)
next
  case (Suc d)
  then have k: "k < length (MLP.batch_norms m)" by simp
  with len have kl: "k < length (linears m)" and skl: "Suc k < length (linears m)" by simp_all
  have up: "[k..<length (MLP.batch_norms m)] = k # [Suc k..<length (MLP.batch_norms m)]"
    using k by (simp add: upt_conv_Cons)
  have dl: "List.drop k (linears m) = linears m ! k # List.drop (Suc k) (linears m)"
    using kl by (simp add: Cons_nth_drop_Suc)
  have db: "List.drop k (MLP.batch_norms m)
              = MLP.batch_norms m ! k # List.drop (Suc k) (MLP.batch_norms m)"
    using k by (simp add: Cons_nth_drop_Suc)
  have ne: "\<not> length (linears m) \<le> Suc k" using skl by simp
  have IH: "\<And>y. bind_err (MLP_forward_loop ops m [Suc k..<length (MLP.batch_norms m)] y)
               (\<lambda>h. bind_err (getitem_last (linears m)) (\<lambda>l. linear_fwd ops l h))
             = linear_stack ops (List.drop (Suc k) (linears m))
                 (List.drop (Suc k) (MLP.batch_norms m)) y"
    using Suc.hyps(1)[of "Suc k"] Suc.hyps(2) k by simp
  show ?case
    unfolding up dl db
    by (simp add: getitem_in k kl ne bind_err_assoc IH)
qed

lemma MLP_forward_stack:
  assumes "2 \<le> n" "MLP_init n i h od s = Inr (m, s')"
  shows "MLP_forward ops m x = linear_stack ops (linears m) (MLP.batch_norms m) x"
proof -
  note m = MLP_init_multi_props(1,3,5,6)[OF assms]
  have "py_range (MLP.num_layers m - 1) = [0..<length (MLP.batch_norms m)]"
    using m by (simp add: py_range_def)
  with MLP_forward_loop_stack[OF m(4), of 0 ops x] m(1) show ?thesis
    by (simp add: MLP_forward_def)
qed

text \<open>
  Claim C10: with one layer, the constructed MLP does not depend on the hidden dimension.
  Built from the same state of the parameter allocator, the two constructions return the
  same module, whose forward pass is the single linear layer from the input dimension to
  the output dimension.
\<close>

theorem MLP_one_layer_hidden_dim_irrelevant:
  "MLP_init 1 i hd1 od s = MLP_init 1 i hd2 od s
   \<and> (\<exists>m1 s1 m2 s2. MLP_init 1 i hd1 od s = Inr (m1, s1) \<and> MLP_init 1 i hd2 od s = Inr (m2, s2)
        \<and> MLP_forward ops m1 x = MLP_forward ops m2 x
        \<and> MLP_forward ops m1 x =
            linear_fwd ops \<lparr>in_features = i, out_features = od, linear_params = s\<rparr> x)"
  by (simp add: MLP_init_one MLP_forward_def)

text \<open>
  Claim C6: the constructor branches on the layer count. With one layer the MLP is in
  linear mode and its forward pass applies the single linear layer from the input
  dimension to the output dimension; with two or more layers it is not in linear mode, has
  no single linear layer, and its forward pass runs the layer stack. Construction succeeds
  for every positive layer count.
\<close>

theorem MLP_branches:
  "(MLP_init 1 i h od s = Inr (m1, s1) \<longrightarrow>
      linear_or_not m1
      \<and> (\<exists>l. linear m1 = Some l \<and> in_features l = i \<and> out_features l = od
             \<and> MLP_forward ops m1 x = linear_fwd ops l x))
   \<and> (2 \<le> n \<and> MLP_init n i h od s = Inr (m2, s2) \<longrightarrow>
      \<not> linear_or_not m2 \<and> linear m2 = None \<and> length (linears m2) = nat n
      \<and> MLP_forward ops m2 x = linear_stack ops (linears m2) (MLP.batch_norms m2) x)
   \<and> (1 \<le> n \<longrightarrow> (\<exists>m s'. MLP_init n i h od s = Inr (m, s')))"
proof (intro conjI impI)
  assume "MLP_init 1 i h od s = Inr (m1, s1)"
  then show "linear_or_not m1"
    and "\<exists>l. linear m1 = Some l \<and> in_features l = i \<and> out_features l = od
             \<and> MLP_forward ops m1 x = linear_fwd ops l x"
    by (auto simp: MLP_init_one MLP_forward_def)
next
  assume a: "2 \<le> n \<and> MLP_init n i h od s = Inr (m2, s2)"
  then have a1: "2 \<le> n" and a2: "MLP_init n i h od s = Inr (m2, s2)" by simp_all
  show "\<not> linear_or_not m2" "linear m2 = None" "length (linears m2) = nat n"
    using MLP_init_multi_props[OF a1 a2] by simp_all
  show "MLP_forward ops m2 x = linear_stack ops (linears m2) (MLP.batch_norms m2) x"
    using a1 a2 by (rule MLP_forward_stack)
next
  assume "1 \<le> n"
  then show "\<exists>m s'. MLP_init n i h od s = Inr (m, s')" by (rule MLP_init_pos)
qed

theorem MLP_branches_witness:
  "linear_or_not (fst (projr (MLP_init 1 3 4 2 0)))
   \<and> MLP_forward (shape_backend False) (fst (projr (MLP_init 1 3 4 2 0))) [5, 3]
       = linear_fwd (shape_backend False)
           \<lparr>in_features = 3, out_features = 2, linear_params = 0\<rparr> [5, 3]
   \<and> \<not> linear_or_not (fst (projr (MLP_init 3 3 4 2 0)))
   \<and> linear (fst (projr (MLP_init 3 3 4 2 0))) = None
   \<and> length (linears (fst (projr (MLP_init 3 3 4 2 0)))) = 3"
proof -
  obtain m1 s1 where e1: "MLP_init 1 3 4 2 0 = Inr (m1, s1)"
    using MLP_init_pos[of 1 3 4 2 0] by auto
  obtain m2 s2 where e2: "MLP_init 3 3 4 2 0 = Inr (m2, s2)"
    using MLP_init_pos[of 3 3 4 2 0] by auto
  have l: "linear m1 = Some \<lparr>in_features = 3, out_features = 2, linear_params = 0\<rparr>"
    using e1 by (auto simp: MLP_init_one)
  from MLP_branches [where n = 3 and i = 3 and h = 4 and od = 2 and s = 0 and ?m1.0 = m1
      and ?s1.0 = s1 and ?m2.0 = m2 and ?s2.0 = s2 and ops = "shape_backend False"
      and x = "[5, 3]"] e1 e2 l
  show ?thesis by auto
qed

text \<open>
  Claim C7: with \<open>n \<ge> 2\<close> layers the MLP holds exactly \<open>n\<close> linear layers, from the input to
  the hidden dimension, then \<open>n - 2\<close> from hidden to hidden, then from the hidden to the
  output dimension, and \<open>n - 1\<close> batch normalisations over the hidden dimension. Its forward
  pass applies the linear layers in sequence, each but the last followed by its batch
  normalisation and a ReLU, and returns the output of the last linear layer.
\<close>

theorem MLP_forward_layer_stack:
  assumes "2 \<le> n" "MLP_init n i h od s = Inr (m, s')"
  shows "length (linears m) = nat n
    \<and> map (\<lambda>l. (in_features l, out_features l)) (linears m)
        = (i, h) # replicate (nat (n - 2)) (h, h) @ [(h, od)]
    \<and> map num_features (MLP.batch_norms m) = replicate (nat (n - 1)) h
    \<and> MLP_forward ops m x = linear_stack ops (linears m) (MLP.batch_norms m) x"
proof (intro conjI)
  from assms show "length (linears m) = nat n"
    by (rule MLP_init_multi_props)
  from assms show "map (\<lambda>l. (in_features l, out_features l)) (linears m)
        = (i, h) # replicate (nat (n - 2)) (h, h) @ [(h, od)]"
    by (auto simp: MLP_init_multi comp_def map_replicate_const simp del: upt_Suc)
  from assms show "map num_features (MLP.batch_norms m) = replicate (nat (n - 1)) h"
    by (auto simp: MLP_init_multi comp_def map_replicate_const simp del: upt_Suc)
  from assms show "MLP_forward ops m x = linear_stack ops (linears m) (MLP.batch_norms m) x"
    by (rule MLP_forward_stack)
qed

theorem MLP_forward_layer_stack_witness:
  "length (linears (fst (projr (MLP_init 3 3 4 2 0)))) = 3
   \<and> map (\<lambda>l. (in_features l, out_features l)) (linears (fst (projr (MLP_init 3 3 4 2 0))))
       = [(3, 4), (4, 4), (4, 2)]
   \<and> map num_features (MLP.batch_norms (fst (projr (MLP_init 3 3 4 2 0)))) = [4, 4]
   \<and> MLP_forward (shape_backend True) (fst (projr (MLP_init 3 3 4 2 0))) [5, 3]
       = linear_stack (shape_backend True) (linears (fst (projr (MLP_init 3 3 4 2 0))))
           (MLP.batch_norms (fst (projr (MLP_init 3 3 4 2 0)))) [5, 3]"
proof -
  obtain m s' where e: "MLP_init 3 3 4 2 0 = Inr (m, s')"
    using MLP_init_pos[of 3 3 4 2 0] by auto
  have r: "replicate (nat (3 - 2)) (4::nat, 4::nat) = [(4, 4)]"
    "replicate (nat (3 - 1)) (4::nat) = [4, 4]"
    by (simp_all add: numeral_2_eq_2)
  from MLP_forward_layer_stack [where n = 3 and i = 3 and h = 4 and od = 2 and s = 0
      and m = m and s' = s' and ops = "shape_backend True" and x = "[5, 3]"] e r
  show ?thesis by simp
qed

section \<open>The structure built by GIN.__init__\<close>

lemma GIN_init_heads_eq:
  "GIN_init_heads ks i h od acc s =
     (acc @ map (\<lambda>(k, p). \<lparr>in_features = (if k = 0 then i else h), out_features = od,
                          linear_params = p\<rparr>) (zip ks [s..<s + length ks]),
      s + length ks)"
proof (induction ks arbitrary: acc s)
  case Nil
  show ?case by simp
next
  case (Cons k ks)
  have "[s..<s + Suc (length ks)] = s # [Suc s..<s + Suc (length ks)]"
    by (rule upt_conv_Cons) simp
  with Cons.IH[of _ "Suc s"] show ?case
    by (simp add: nn_Linear_def del: upt_Suc)
qed

lemma GIN_init_layers_ConsE:
  assumes "GIN_init_layers (k # ks) nmlp i h le npt gl bns s = Inr res"
  obtains mm s1 f s2 c s3 b s4 where
    "MLP_init nmlp (if k = 0 then i else h) h h s = Inr (mm, s1)"
    "ApplyNodeFunc_init mm s1 = (f, s2)"
    "GINConv_init f npt 0 le s2 = Inr (c, s3)"
    "nn_BatchNorm1d h s3 = (b, s4)"
    "GIN_init_layers ks nmlp i h le npt (gl @ [c]) (bns @ [b]) s4 = Inr res"
proof (cases "MLP_init nmlp (if k = 0 then i else h) h h s")
  case (Inl e)
  with assms show ?thesis by (simp split: if_splits)
next
  case (Inr p)
  obtain mm s1 where p: "p = (mm, s1)" by (cases p)
  obtain f s2 where f: "ApplyNodeFunc_init mm s1 = (f, s2)"
    by (cases "ApplyNodeFunc_init mm s1")
  show ?thesis
  proof (cases "GINConv_init f npt 0 le s2")
    case (Inl e)
    with assms Inr p f show ?thesis by (simp split: if_splits)
  next
    case c: (Inr q)
    obtain c s3 where q: "q = (c, s3)" by (cases q)
    obtain b s4 where b: "nn_BatchNorm1d h s3 = (b, s4)"
      by (cases "nn_BatchNorm1d h s3")
    from assms Inr p f c q b
    have "GIN_init_layers ks nmlp i h le npt (gl @ [c]) (bns @ [b]) s4 = Inr res"
      by (simp split: if_splits)
    with Inr p f c q b show ?thesis by (intro that) simp_all
  qed
qed

lemma GIN_init_layers_length:
  "GIN_init_layers ks nmlp i h le npt gl bns s = Inr (gl', bns', s') \<Longrightarrow>
     length gl' = length gl + length ks \<and> length bns' = length bns + length ks"
proof (induction ks arbitrary: gl bns s)
  case Nil
  then show ?case by simp
next
  case (Cons k ks)
  from Cons.prems obtain c b s4 where
    "GIN_init_layers ks nmlp i h le npt (gl @ [c]) (bns @ [b]) s4 = Inr (gl', bns', s')"
    by (rule GIN_init_layers_ConsE)
  from Cons.IH[OF this] show ?case by simp
qed

lemma GIN_init_props:
  assumes "GIN_init n nmlp i h od fd le gpt npt s = Inr (m, s')"
  shows "GIN.num_layers m = n"
    and "length (ginlayers m) = nat (n - 1)"
    and "length (GIN.batch_norms m) = nat (n - 1)"
    and "length (linears_prediction m) = nat n"
    and "distinct (map linear_params (linears_prediction m))"
    and "\<And>k. k < nat n \<Longrightarrow> in_features (linears_prediction m ! k) = (if k = 0 then i else h)
           \<and> out_features (linears_prediction m ! k) = od"
proof -
  from GIN_init_Inr[OF assms] obtain gl bns s1 heads d pl where
    ly: "GIN_init_layers (py_range (n - 1)) nmlp i h le npt [] [] s = Inr (gl, bns, s1)"
    and hd: "GIN_init_heads (py_range n) i h od [] s1 = (heads, s')"
    and m: "m = \<lparr>num_layers = n, learn_eps = le, ginlayers = gl, batch_norms = bns,
                 linears_prediction = heads, drop = d, pool = pl\<rparr>"
    by blast
  show "GIN.num_layers m = n" by (simp add: m)
  from GIN_init_layers_length[OF ly]
  show "length (ginlayers m) = nat (n - 1)" "length (GIN.batch_norms m) = nat (n - 1)"
    by (simp_all add: m length_py_range)
  from hd have heads: "heads = map (\<lambda>(k, p). \<lparr>in_features = (if k = 0 then i else h),
      out_features = od, linear_params = p\<rparr>) (zip (py_range n) [s1..<s1 + nat n])"
    by (auto simp: GIN_init_heads_eq length_py_range)
  show "length (linears_prediction m) = nat n"
    by (simp add: m heads length_py_range)
  have "map linear_params heads = map snd (zip (py_range n) [s1..<s1 + nat n])"
    by (simp add: heads split_def comp_def)
  also have "\<dots> = [s1..<s1 + nat n]"
    by (rule map_snd_zip) (simp add: length_py_range)
  finally show "distinct (map linear_params (linears_prediction m))"
    by (simp add: m)
  show "in_features (linears_prediction m ! k) = (if k = 0 then i else h)
           \<and> out_features (linears_prediction m ! k) = od" if "k < nat n" for k
    using that by (simp add: m heads py_range_def)
qed

section \<open>GIN.forward and the sum of layer scores\<close>


lemma GIN_forward_layers_Cons:
  "layer_rep ops m g x k = Inr hk \<Longrightarrow>
   GIN_forward_layers ops m g (k # rest) hk acc =
     bind_err (layer_rep ops m g x (Suc k))
       (\<lambda>h'. GIN_forward_layers ops m g rest h' (acc @ [h']))"
  by (simp add: bind_err_assoc)

lemma GIN_forward_layers_reps:
  "layer_rep ops m g x k = Inr hk \<Longrightarrow>
   GIN_forward_layers ops m g [k..<k + j] hk acc = Inr reps \<longleftrightarrow>
     (\<exists>r. reps = acc @ r \<and> map (layer_rep ops m g x) [Suc k..<Suc (k + j)] = map Inr r)"
proof (induction j arbitrary: k hk acc)
  case 0
  then show ?case by auto
next
  case (Suc j)
  have up: "[k..<k + Suc j] = k # [Suc k..<Suc k + j]"
    by (simp add: upt_conv_Cons del: upt_Suc)
  have up': "[Suc k..<Suc (k + Suc j)] = Suc k # [Suc (Suc k)..<Suc (Suc k + j)]"
    by (simp add: upt_conv_Cons del: upt_Suc)
  show ?case
  proof (cases "layer_rep ops m g x (Suc k)")
    case (Inl e)
    then show ?thesis
      unfolding up up' GIN_forward_layers_Cons[OF Suc.prems]
      by (auto simp del: layer_rep.simps)
  next
    case (Inr h')
    from Suc.IH[OF Inr, of "acc @ [h']"] Inr show ?thesis
      unfolding up up' GIN_forward_layers_Cons[OF Suc.prems]
      by (auto simp: Cons_eq_map_conv simp del: layer_rep.simps)
  qed
qed

lemma GIN_forward_scores_sum:
  "map (layer_rep ops m g x) [k..<k + length reps] = map Inr reps \<Longrightarrow>
   GIN_forward_scores ops m g (enumerate k reps) acc =
     sum_scores ops (map (layer_score ops m g x) [k..<k + length reps]) acc"
proof (induction reps arbitrary: k acc)
  case Nil
  show ?case by simp
next
  case (Cons r rs)
  have up: "[k..<k + length (r # rs)] = k # [Suc k..<Suc k + length rs]"
    by (simp add: upt_conv_Cons del: upt_Suc)
  from Cons.prems have r: "layer_rep ops m g x k = Inr r"
    and rs: "map (layer_rep ops m g x) [Suc k..<Suc k + length rs] = map Inr rs"
    unfolding up by simp_all
  note IH = Cons.IH[OF rs]
  have ls: "layer_score ops m g x k =
      bind_err (pool_fwd ops (pool m) g r) (\<lambda>pooled.
      bind_err (getitem (linears_prediction m) k) (\<lambda>l.
      bind_err (linear_fwd ops l pooled) (\<lambda>y.
        Inr (dropout_fwd ops (drop m) y))))"
    by (simp add: layer_score_def r)
  have IH': "GIN_forward_scores ops m g (enumerate (Suc k) rs) =
      sum_scores ops (map (layer_score ops m g x) [Suc k..<Suc k + length rs])"
    by (rule ext) (rule IH)
  show ?case
    unfolding up
    by (simp add: ls bind_err_assoc IH' del: upt_Suc)
qed

lemma sum_scores_Inr:
  "sum_scores ops ts acc = Inr y \<Longrightarrow> t \<in> set ts \<Longrightarrow> \<exists>v. t = Inr v"
proof (induction ts arbitrary: acc)
  case Nil
  then show ?case by simp
next
  case (Cons a ts)
  from Cons.prems(1) obtain v acc' where
    a: "a = Inr v" and rest: "sum_scores ops ts acc' = Inr y"
    by (auto simp: bind_err_Inr_iff)
  from Cons.prems(2) a Cons.IH[OF rest] show ?case by auto
qed

lemma layer_score_Inr: "layer_score ops m g x k = Inr v \<Longrightarrow> \<exists>u. layer_rep ops m g x k = Inr u"
  by (auto simp: layer_score_def bind_err_Inr_iff)

lemma GIN_forward_layers_reps0:
  "GIN_forward_layers ops m g [0..<j] x [x] = Inr reps \<longleftrightarrow>
     (\<exists>r. reps = x # r \<and> map (layer_rep ops m g x) [Suc 0..<Suc j] = map Inr r)"
  using GIN_forward_layers_reps[of ops m g x 0 x j "[x]" reps]
  by (simp del: upt_Suc layer_rep.simps(2))

lemma GIN_forward_scores_sum0:
  "map (layer_rep ops m g x) [0..<length reps] = map Inr reps \<Longrightarrow>
   GIN_forward_scores ops m g (enumerate 0 reps) acc =
     sum_scores ops (map (layer_score ops m g x) [0..<length reps]) acc"
  using GIN_forward_scores_sum[of ops m g x 0 reps acc]
  by (simp del: upt_Suc layer_rep.simps(2))

lemma GIN_forward_scores_reps:
  assumes r: "map (layer_rep ops m g x) [Suc 0..<Suc j] = map Inr r"
  shows "GIN_forward_scores ops m g (enumerate 0 (x # r)) acc =
     sum_scores ops (map (layer_score ops m g x) [0..<Suc j]) acc"
proof -
  from arg_cong[OF r, of length] have lr: "length r = j" by (simp del: upt_Suc)
  have up: "[0..<Suc j] = 0 # [Suc 0..<Suc j]"
    by (rule upt_conv_Cons) simp
  have len: "length (x # r) = Suc j" by (simp add: lr)
  have "map (layer_rep ops m g x) [0..<Suc j] = map Inr (x # r)"
    unfolding up using r by (simp del: upt_Suc layer_rep.simps(2))
  then have "map (layer_rep ops m g x) [0..<length (x # r)] = map Inr (x # r)"
    unfolding len .
  from GIN_forward_scores_sum0[OF this] show ?thesis
    unfolding len .
qed

lemma GIN_forward_sum:
  assumes n: "1 \<le> GIN.num_layers m"
  shows "GIN_forward ops m g x = Inr y \<longleftrightarrow> layer_score_sum ops m g x = Inr y"
proof -
  define j where "j = nat (GIN.num_layers m) - 1"
  have nj: "nat (GIN.num_layers m) = Suc j"
    using n by (simp add: j_def)
  have pr: "py_range (GIN.num_layers m - 1) = [0..<j]"
    using n by (simp add: py_range_def j_def nat_diff_distrib)
  have fwd: "GIN_forward ops m g x =
      bind_err (GIN_forward_layers ops m g [0..<j] x [x])
        (\<lambda>hidden_rep. GIN_forward_scores ops m g (enumerate 0 hidden_rep) (PyInt 0))"
    by (simp only: GIN_forward_def pr)
  have lss: "layer_score_sum ops m g x =
      sum_scores ops (map (layer_score ops m g x) [0..<Suc j]) (PyInt 0)"
    by (simp only: layer_score_sum_def nj)
  show ?thesis
  proof
    assume a: "GIN_forward ops m g x = Inr y"
    then obtain reps where
      l: "GIN_forward_layers ops m g [0..<j] x [x] = Inr reps"
      and sc: "GIN_forward_scores ops m g (enumerate 0 reps) (PyInt 0) = Inr y"
      unfolding fwd bind_err_Inr_iff by blast
    from l obtain r where reps: "reps = x # r"
      and r: "map (layer_rep ops m g x) [Suc 0..<Suc j] = map Inr r"
      unfolding GIN_forward_layers_reps0 by blast
    from sc show "layer_score_sum ops m g x = Inr y"
      unfolding reps GIN_forward_scores_reps[OF r] lss .
  next
    assume s: "layer_score_sum ops m g x = Inr y"
    have ex: "layer_rep ops m g x k = Inr (projr (layer_rep ops m g x k))" if "k < Suc j" for k
    proof -
      from that have "layer_score ops m g x k \<in> set (map (layer_score ops m g x) [0..<Suc j])"
        by (simp del: upt_Suc)
      from sum_scores_Inr[OF s[unfolded lss] this]
      obtain v where "layer_score ops m g x k = Inr v" ..
      from layer_score_Inr[OF this] obtain u where u: "layer_rep ops m g x k = Inr u" ..
      show ?thesis unfolding u by simp
    qed
    define r where "r = map (\<lambda>k. projr (layer_rep ops m g x k)) [Suc 0..<Suc j]"
    have "map (layer_rep ops m g x) [Suc 0..<Suc j] =
        map (\<lambda>k. Inr (projr (layer_rep ops m g x k))) [Suc 0..<Suc j]"
    proof (rule map_cong[OF refl])
      fix k assume "k \<in> set [Suc 0..<Suc j]"
      then have "k < Suc j" by (simp del: upt_Suc)
      then show "layer_rep ops m g x k = Inr (projr (layer_rep ops m g x k))" by (rule ex)
    qed
    also have "\<dots> = map Inr r"
      unfolding r_def map_map comp_def ..
    finally have r: "map (layer_rep ops m g x) [Suc 0..<Suc j] = map Inr r" .
    have l: "GIN_forward_layers ops m g [0..<j] x [x] = Inr (x # r)"
      unfolding GIN_forward_layers_reps0 using r by blast
    show "GIN_forward ops m g x = Inr y"
      unfolding fwd l bind_err.simps GIN_forward_scores_reps[OF r] using s[unfolded lss] .
  qed
qed

lemma GIN_forward_no_heads:
  assumes "GIN.num_layers m \<le> 0" "linears_prediction m = []"
  shows "GIN_forward ops m g x \<noteq> Inr y"
proof -
  from assms(1) have "py_range (GIN.num_layers m - 1) = []" by (simp add: py_range_def)
  then show ?thesis
    by (cases "pool_fwd ops (pool m) g x")
       (simp_all add: GIN_forward_def enumerate_simps getitem_def assms(2))
qed



text \<open>
  Claim C2: the value returned by \<^verbatim>\<open>GIN.forward\<close> is the sum, over the layers
  \<open>0, \<dots>, num_layers - 1\<close>, of the dropout of prediction head \<open>k\<close> applied to the pooled
  representation of layer \<open>k\<close>, layer \<open>0\<close> being the raw input: for a model constructed with
  \<^verbatim>\<open>num_layers \<ge> 1\<close>, \<^verbatim>\<open>forward\<close> returns a value exactly when the sum of the layer scores is
  defined, and then it returns that sum, for every backend, graph and input. There is one
  head per layer, each of its own dimensions and with parameters of its own. (A model
  constructed with \<^verbatim>\<open>num_layers \<le> 0\<close> has no layer \<open>0\<close>: its \<^verbatim>\<open>forward\<close> never returns.)
\<close>

theorem GIN_forward_sum_of_layer_scores:
  assumes "GIN_init n nmlp i h od fd le gpt npt s = Inr (m, s')"
  shows "(1 \<le> n \<longrightarrow>
            (\<forall>y. GIN_forward ops m g x = Inr y \<longleftrightarrow> layer_score_sum ops m g x = Inr y))
     \<and> (n \<le> 0 \<longrightarrow> (\<forall>y. GIN_forward ops m g x \<noteq> Inr y))
     \<and> length (linears_prediction m) = nat n
     \<and> distinct (map linear_params (linears_prediction m))
     \<and> (\<forall>k<nat n. in_features (linears_prediction m ! k) = (if k = 0 then i else h)
                  \<and> out_features (linears_prediction m ! k) = od)"
proof -
  note p = GIN_init_props[OF assms]
  have a: "\<forall>y. GIN_forward ops m g x = Inr y \<longleftrightarrow> layer_score_sum ops m g x = Inr y"
    if "1 \<le> n"
    using GIN_forward_sum[of m ops g x] that by (simp add: p(1))
  have b: "\<forall>y. GIN_forward ops m g x \<noteq> Inr y" if "n \<le> 0"
  proof -
    from that p(4) have "linears_prediction m = []" by simp
    with that show ?thesis
      by (intro allI GIN_forward_no_heads) (simp_all add: p(1))
  qed
  from a b p(4) p(5) p(6) show ?thesis by blast
qed

theorem GIN_forward_sum_of_layer_scores_witness:
  "GIN_forward (shape_backend True)
      (fst (projr (GIN_init 3 2 3 4 2 (1/2) True ''mean'' ''max'' 0)))
      \<lparr>num_nodes = 5, batch_size = 2\<rparr> [5, 3] = Inr (Tensor [2, 2])
   \<and> layer_score_sum (shape_backend True)
      (fst (projr (GIN_init 3 2 3 4 2 (1/2) True ''mean'' ''max'' 0)))
      \<lparr>num_nodes = 5, batch_size = 2\<rparr> [5, 3] = Inr (Tensor [2, 2])
   \<and> map linear_params (linears_prediction
        (fst (projr (GIN_init 3 2 3 4 2 (1/2) True ''mean'' ''max'' 0)))) = [12, 13, 14]"
proof -
  let ?r = "GIN_init 3 2 3 4 2 (1/2) True ''mean'' ''max'' 0"
  let ?g = "\<lparr>num_nodes = 5, batch_size = 2\<rparr>"
  have ok: "\<not> isl ?r" by code_simp
  then obtain m s' where eq: "?r = Inr (m, s')"
    by (cases ?r) auto
  then have m: "fst (projr ?r) = m" by simp
  have fw: "GIN_forward (shape_backend True) (fst (projr ?r)) ?g [5, 3] = Inr (Tensor [2, 2])"
    by code_simp
  have hs: "map linear_params (linears_prediction (fst (projr ?r))) = [12, 13, 14]"
    by code_simp
  from GIN_forward_sum_of_layer_scores[OF eq, of "shape_backend True" ?g "[5, 3]"]
  have "\<forall>y. GIN_forward (shape_backend True) m ?g [5, 3] = Inr y
          \<longleftrightarrow> layer_score_sum (shape_backend True) m ?g [5, 3] = Inr y"
    by simp
  with fw have "layer_score_sum (shape_backend True) m ?g [5, 3] = Inr (Tensor [2, 2])"
    by (simp add: m)
  with fw hs show ?thesis by (simp add: m)
qed

section \<open>Every layer accepts the output of the layer before it\<close>








section \<open>The shape of the output\<close>






section \<open>Differentiability of the output\<close>






section \<open>The parameters of the prediction heads\<close>




section \<open>Layers that do not read a parameter\<close>











end
